theory Spec2Isabelle
  imports Complex_Main "HOL-Library.Sublist"
begin

section \<open>Python values\<close>

text \<open>
  The values that cross the interfaces of \<open>first_real_agent.py\<close>: what \<open>sqlite3\<close> hands
  back for a column (\<open>None\<close>, \<open>int\<close>, \<open>float\<close>, \<open>str\<close>) and what the dictionaries
  returned by the tools and by the runner hold. \<open>PyFloat x\<close> is the finite float whose
  exact value is the real number \<open>x\<close>. A dictionary with string keys is a map.
\<close>

datatype py_value = PyNone | PyBool bool | PyInt int | PyFloat real | PyStr string

type_synonym py_dict = "string \<rightharpoonup> py_value"

datatype py_error = ZeroDivisionError | OverflowError | TypeError

text \<open>
  A Python \<open>str\<close> is modelled as an Isabelle \<open>string\<close>: a list of characters whose
  code points lie below 256. \<open>str_contains needle s\<close> is Python's \<open>needle in s\<close>,
  scanning \<open>s\<close> from the left for a position where \<open>needle\<close> starts.
\<close>

fun str_contains :: "string \<Rightarrow> string \<Rightarrow> bool" where
  "str_contains needle [] = (needle = [])"
| "str_contains needle (c # cs) = (prefix needle (c # cs) \<or> str_contains needle cs)"

text \<open>
  \<open>str.lower()\<close> on code points below 256: the letters A to Z and the Latin-1 capitals
  (192 to 222, the multiplication sign 215 excepted) move up by 32, every other
  character stays.
\<close>

definition lower_char :: "char \<Rightarrow> char" where
  "lower_char c =
     (let n = (of_char c :: nat)
      in if (65 \<le> n \<and> n \<le> 90) \<or> (192 \<le> n \<and> n \<le> 222 \<and> n \<noteq> 215)
         then char_of (n + 32) else c)"

definition lower :: "string \<Rightarrow> string" where
  "lower s = map lower_char s"

text \<open>The name \<open>type(v).__name__\<close> that Python prints in an \<open>AttributeError\<close>.\<close>

fun type_name :: "py_value \<Rightarrow> string" where
  "type_name PyNone = ''NoneType''"
| "type_name (PyBool b) = ''bool''"
| "type_name (PyInt i) = ''int''"
| "type_name (PyFloat x) = ''float''"
| "type_name (PyStr s) = ''str''"

text \<open>
  Float arithmetic. A float operation returns the float nearest to the exact result, a
  tie going to the float with the even significand. \<open>round_half_even\<close> is that rule on
  whole numbers. \<open>to_double\<close> rounds a real to the binary64 format: 53 significant
  bits, the spacing \<open>2^(e - 52)\<close> in the binade \<open>[2^e, 2^(e + 1))\<close>, and the fixed
  spacing of the binade \<open>e = -1022\<close> below it. Results beyond the largest float are
  modelled only where Python raises on them (the quotient of two \<open>int\<close>s); infinities
  and NaN are not values of the model.
\<close>

definition round_half_even :: "real \<Rightarrow> int" where
  "round_half_even y =
     (let f = \<lfloor>y\<rfloor>; d = y - of_int f
      in if d < 1 / 2 then f
         else if d > 1 / 2 then f + 1
         else if even f then f else f + 1)"

definition pow2 :: "int \<Rightarrow> real" where
  "pow2 e = (if 0 \<le> e then 2 ^ nat e else 1 / 2 ^ nat (- e))"

definition binade :: "real \<Rightarrow> int" where
  "binade x = max \<lfloor>log 2 \<bar>x\<bar>\<rfloor> (- 1022)"

definition to_double :: "real \<Rightarrow> real" where
  "to_double x =
     (if x = 0 then 0
      else of_int (round_half_even (x / pow2 (binade x - 52))) * pow2 (binade x - 52))"

text \<open>
  \<open>a / b\<close> on two \<open>int\<close>s: the correctly rounded quotient; a \<open>ZeroDivisionError\<close>
  on a zero divisor, an \<open>OverflowError\<close> when the quotient is too large for a float.
\<close>

definition int_truediv :: "int \<Rightarrow> int \<Rightarrow> py_error + real" where
  "int_truediv a b =
     (if b = 0 then Inl ZeroDivisionError
      else if 2 ^ 1024 \<le> \<bar>to_double (of_int a / of_int b)\<bar> then Inl OverflowError
      else Inr (to_double (of_int a / of_int b)))"

text \<open>\<open>x / y\<close> on floats: a \<open>ZeroDivisionError\<close> on a zero divisor.\<close>

definition float_truediv :: "real \<Rightarrow> real \<Rightarrow> py_error + real" where
  "float_truediv x y = (if y = 0 then Inl ZeroDivisionError else Inr (to_double (x / y)))"

text \<open>
  \<open>v > 0\<close>: defined on numbers (a \<open>bool\<close> counts as 0 or 1), a \<open>TypeError\<close> on
  \<open>None\<close> and on text.
\<close>

fun greater_than_zero :: "py_value \<Rightarrow> py_error + bool" where
  "greater_than_zero (PyInt i) = Inr (i > 0)"
| "greater_than_zero (PyFloat x) = Inr (x > 0)"
| "greater_than_zero (PyBool b) = Inr b"
| "greater_than_zero PyNone = Inl TypeError"
| "greater_than_zero (PyStr s) = Inl TypeError"

text \<open>
  \<open>round(v, 2)\<close>: an \<open>int\<close> is returned as it is. For a float, the exact value of the
  float is rounded to the nearest multiple of one hundredth, a tie to the even one, and
  the result is the float nearest to that decimal number.
\<close>

fun round2 :: "py_value \<Rightarrow> py_value" where
  "round2 (PyFloat x) = PyFloat (to_double (of_int (round_half_even (x * 100)) / 100))"
| "round2 v = v"

section \<open>Record stores\<close>

text \<open>
  The three SQLite tables, each as the list of its rows in scan order, with the columns
  the queries name. \<open>orders\<close>: id, status, order_date, total_amount. \<open>inventory\<close>:
  product_id, name, quantity, next_restock_date. The column values are the Python values
  \<open>sqlite3\<close> returns for them.
\<close>

type_synonym order_row = "py_value \<times> py_value \<times> py_value \<times> py_value"

type_synonym inventory_row = "py_value \<times> py_value \<times> py_value \<times> py_value"

record ticket =
  ticket_id :: string
  customer_email :: string
  issue :: string
  priority :: string
  status :: string

record stores =
  orders :: "order_row list"
  inventory :: "inventory_row list"
  tickets :: "ticket list"

text \<open>
  The comparison \<open>column = ?\<close> of a stored value with the bound parameter is SQLite's and
  depends on the column's declared type, which the schema fixes and the source does not
  show; the lookups take it as the parameter \<open>sql_eq\<close>. Both queries compare the
  first selected column. \<open>fetchone\<close> yields the first row the scan finds, or \<open>None\<close>.
\<close>

type_synonym sql_comparison = "py_value \<Rightarrow> py_value \<Rightarrow> bool"

definition fetchone :: "sql_comparison \<Rightarrow> py_value \<Rightarrow> order_row list \<Rightarrow> order_row option" where
  "fetchone sql_eq param rows = find (\<lambda>row. sql_eq (fst row) param) rows"

text \<open>
  Two instances of the comparison. On a column declared as text the stored value and
  the parameter are compared as they are. On a column declared as integer, SQLite first
  converts a text parameter that spells an integer to that integer; \<open>int_literal\<close>
  covers the spelling as a plain run of decimal digits.
\<close>

definition text_column_eq :: sql_comparison where
  "text_column_eq stored param = (stored \<noteq> PyNone \<and> stored = param)"

definition digit_value :: "char \<Rightarrow> nat option" where
  "digit_value c =
     (let n = (of_char c :: nat) in if 48 \<le> n \<and> n \<le> 57 then Some (n - 48) else None)"

fun digits_value :: "nat \<Rightarrow> string \<Rightarrow> nat option" where
  "digits_value acc [] = Some acc"
| "digits_value acc (c # cs) =
     (case digit_value c of None \<Rightarrow> None | Some d \<Rightarrow> digits_value (10 * acc + d) cs)"

definition int_literal :: "string \<Rightarrow> int option" where
  "int_literal s = (if s = [] then None else map_option int (digits_value 0 s))"

fun integer_column_eq :: sql_comparison where
  "integer_column_eq (PyInt i) (PyInt j) = (i = j)"
| "integer_column_eq (PyInt i) (PyStr s) = (int_literal s = Some i)"
| "integer_column_eq (PyStr a) (PyStr b) = (a = b)"
| "integer_column_eq _ _ = False"

section \<open>Lookup tools\<close>

text \<open>
  \<open>check_order_status\<close> runs one \<open>SELECT\<close> with the identifier as bound parameter and
  builds the reply from the row found. It returns the reply together with the table,
  which it does not write.
\<close>

definition check_order_status ::
  "sql_comparison \<Rightarrow> string \<Rightarrow> order_row list \<Rightarrow> py_dict \<times> order_row list" where
  "check_order_status sql_eq order_id rows =
     (case fetchone sql_eq (PyStr order_id) rows of
        Some (r0, r1, r2, r3) \<Rightarrow>
          ([''order_id'' \<mapsto> r0, ''status'' \<mapsto> r1, ''order_date'' \<mapsto> r2,
            ''total_amount'' \<mapsto> r3], rows)
      | None \<Rightarrow> ([''error'' \<mapsto> PyStr ''Order not found''], rows))"

definition policies :: "(string \<times> string) list" where
  "policies =
     [(''electronics'', ''30-day return window, must include original packaging''),
      (''clothing'', ''60-day return window, must have tags attached''),
      (''furniture'', ''14-day return window, assembly affects eligibility'')]"

text \<open>\<open>policies.get(product_type, default)\<close>: the table's entry, or the default.\<close>

definition check_return_policy :: "string \<Rightarrow> string" where
  "check_return_policy product_type =
     (case map_of policies product_type of
        Some policy \<Rightarrow> policy
      | None \<Rightarrow> ''Standard 30-day return policy applies'')"

text \<open>
  \<open>check_inventory\<close>: as the order lookup, with \<open>in_stock\<close> computed as
  \<open>result[2] > 0\<close>, which raises on a quantity that is not a number.
\<close>

definition check_inventory ::
  "sql_comparison \<Rightarrow> string \<Rightarrow> inventory_row list \<Rightarrow> py_error + py_dict" where
  "check_inventory sql_eq product_id rows =
     (case fetchone sql_eq (PyStr product_id) rows of
        Some (r0, r1, r2, r3) \<Rightarrow>
          (case greater_than_zero r2 of
             Inl e \<Rightarrow> Inl e
           | Inr b \<Rightarrow>
               Inr [''product_id'' \<mapsto> r0, ''name'' \<mapsto> r1, ''in_stock'' \<mapsto> PyBool b,
                    ''quantity'' \<mapsto> r2, ''next_restock'' \<mapsto> r3])
      | None \<Rightarrow> Inr [''error'' \<mapsto> PyStr ''Product not found''])"

section \<open>Ticket creation\<close>

text \<open>
  A reading of \<open>datetime.now()\<close>, by its calendar fields. \<open>wf_datetime\<close> gives the
  ranges every \<open>datetime\<close> object keeps.
\<close>

record datetime =
  year :: nat
  month :: nat
  day :: nat
  hour :: nat
  minute :: nat
  second :: nat
  microsecond :: nat

definition wf_datetime :: "datetime \<Rightarrow> bool" where
  "wf_datetime t =
     (1 \<le> year t \<and> year t \<le> 9999 \<and> 1 \<le> month t \<and> month t \<le> 12
      \<and> 1 \<le> day t \<and> day t \<le> 31 \<and> hour t < 24 \<and> minute t < 60 \<and> second t < 60
      \<and> microsecond t < 1000000)"

definition digit_char :: "nat \<Rightarrow> char" where
  "digit_char d = char_of (48 + d)"

fun decimal :: "nat \<Rightarrow> string" where
  "decimal n = (if n < 10 then [digit_char n] else decimal (n div 10) @ [digit_char (n mod 10)])"

declare decimal.simps [simp del]

definition zero_pad :: "nat \<Rightarrow> string \<Rightarrow> string" where
  "zero_pad width s = replicate (width - length s) (CHR ''0'') @ s"

text \<open>
  \<open>strftime('%Y%m%d%H%M%S')\<close>: the year in four digits and the other five fields in two
  digits each, zero-padded. The microsecond is not printed.
\<close>

definition strftime :: "datetime \<Rightarrow> string" where
  "strftime t =
     zero_pad 4 (decimal (year t)) @ zero_pad 2 (decimal (month t))
     @ zero_pad 2 (decimal (day t)) @ zero_pad 2 (decimal (hour t))
     @ zero_pad 2 (decimal (minute t)) @ zero_pad 2 (decimal (second t))"

text \<open>The reading at second resolution: every field but the microsecond.\<close>

definition to_the_second :: "datetime \<Rightarrow> nat \<times> nat \<times> nat \<times> nat \<times> nat \<times> nat" where
  "to_the_second t = (year t, month t, day t, hour t, minute t, second t)"

definition new_ticket_id :: "datetime \<Rightarrow> string" where
  "new_ticket_id now = ''TKT-'' @ strftime now"

text \<open>
  \<open>create_support_ticket\<close> takes the clock reading as an input. The \<open>INSERT\<close> adds one
  row at the end of the table.
\<close>

definition create_support_ticket ::
  "datetime \<Rightarrow> string \<Rightarrow> string \<Rightarrow> string \<Rightarrow> ticket list \<Rightarrow> string \<times> ticket list" where
  "create_support_ticket now email issue_text prio rows =
     (let tid = new_ticket_id now
      in (''Support ticket '' @ tid @ '' created. Team will respond within 24 hours.'',
          rows @ [\<lparr>ticket_id = tid, customer_email = email, issue = issue_text,
                   priority = prio, status = ''open''\<rparr>]))"

text \<open>Successive calls, each with its own clock reading and arguments.\<close>

fun create_support_tickets ::
  "(datetime \<times> string \<times> string \<times> string) list \<Rightarrow> ticket list \<Rightarrow> string list \<times> ticket list" where
  "create_support_tickets [] rows = ([], rows)"
| "create_support_tickets ((now, email, issue_text, prio) # calls) rows =
     (let (msg, rows') = create_support_ticket now email issue_text prio rows;
          (msgs, rows'') = create_support_tickets calls rows'
      in (msg # msgs, rows''))"

text \<open>The row that one call inserts.\<close>

definition open_ticket :: "datetime \<times> string \<times> string \<times> string \<Rightarrow> ticket" where
  "open_ticket call =
     (case call of
        (now, email, issue_text, prio) \<Rightarrow>
          \<lparr>ticket_id = ''TKT-'' @ strftime now, customer_email = email, issue = issue_text,
           priority = prio, status = ''open''\<rparr>)"

section \<open>Monitored runner\<close>

text \<open>
  The agent executor is the external dispatcher: \<open>invoke\<close> takes the input dictionary,
  may call tools (and so change the stores), and then returns a dictionary or raises.
  \<open>Raises msg\<close> is an exception derived from \<open>Exception\<close>, of which the runner uses
  \<open>str(e)\<close> only. \<open>RaisesBaseException name\<close> is one that is not
  (\<open>KeyboardInterrupt\<close>, \<open>SystemExit\<close>, \<open>GeneratorExit\<close>), given by its name.
\<close>

datatype agent_result = Raises string | RaisesBaseException string | Returns py_dict

text \<open>An exception that leaves \<open>run\<close>.\<close>

datatype propagated = Propagated string

type_synonym agent_executor = "py_dict \<Rightarrow> stores \<Rightarrow> agent_result \<times> stores"

record metrics =
  total_queries :: int
  successful_resolutions :: int
  escalations :: int
  average_response_time :: "real list"

definition init_metrics :: metrics where
  "init_metrics =
     \<lparr>total_queries = 0, successful_resolutions = 0, escalations = 0,
      average_response_time = []\<rparr>"

definition apology :: string where
  "apology = ''I apologize, but I encountered an error. A support ticket has been created.''"

definition error_reply :: "string \<Rightarrow> py_dict" where
  "error_reply msg =
     [''status'' \<mapsto> PyStr ''error'', ''response'' \<mapsto> PyStr apology, ''error'' \<mapsto> PyStr msg]"

text \<open>
  \<open>run\<close>. The two clock readings are inputs, in microseconds on the time axis, which is
  what their difference uses; the second one is read after the dispatcher has returned.
  \<open>total_seconds()\<close> is the float quotient of the microseconds by one million. The
  query is counted before the \<open>try\<close> block. The handler is \<open>except Exception\<close>: it
  takes the dispatcher's exception when that derives from \<open>Exception\<close>, the
  \<open>KeyError\<close> of a result without \<open>output\<close>, and the \<open>AttributeError\<close> of an
  \<open>output\<close> that is not text; the last two are raised after the latency has been
  appended. Any other exception of the dispatcher leaves \<open>run\<close>, which then returns no
  dictionary.
\<close>

definition run ::
  "agent_executor \<Rightarrow> int \<Rightarrow> int \<Rightarrow> string \<Rightarrow> metrics \<Rightarrow> stores
   \<Rightarrow> (propagated + py_dict) \<times> metrics \<times> stores" where
  "run agent start_time end_time query m st =
     (let m1 = m\<lparr>total_queries := total_queries m + 1\<rparr>
      in case agent [''input'' \<mapsto> PyStr query] st of
           (RaisesBaseException name, st') \<Rightarrow> (Inl (Propagated name), m1, st')
         | (Raises msg, st') \<Rightarrow> (Inr (error_reply msg), m1, st')
         | (Returns result, st') \<Rightarrow>
             (let response_time = to_double (real_of_int (end_time - start_time) / 1000000);
                  m2 = m1\<lparr>average_response_time := average_response_time m1 @ [response_time]\<rparr>
              in case result ''output'' of
                   None \<Rightarrow> (Inr (error_reply (CHR 0x27 # ''output'' @ [CHR 0x27])), m2, st')
                 | Some (PyStr output) \<Rightarrow>
                     (let m3 = (if str_contains ''ticket'' (lower output)
                                then m2\<lparr>escalations := escalations m2 + 1\<rparr>
                                else m2\<lparr>successful_resolutions := successful_resolutions m2 + 1\<rparr>)
                      in (Inr [''status'' \<mapsto> PyStr ''success'', ''response'' \<mapsto> PyStr output,
                               ''response_time'' \<mapsto> PyFloat response_time], m3, st'))
                 | Some v \<Rightarrow>
                     (Inr (error_reply (CHR 0x27 # type_name v
                                        @ [CHR 0x27] @ '' object has no attribute ''
                                        @ CHR 0x27 # ''lower'' @ [CHR 0x27])), m2, st')))"

text \<open>
  Deterministic stand-ins for the dispatcher, used to run the model on concrete inputs:
  one that raises an \<open>Exception\<close> with a given message, one that is interrupted from
  the keyboard, one that replies with a given text, none touching the stores.
\<close>

definition raising_agent :: "string \<Rightarrow> agent_executor" where
  "raising_agent msg input st = (Raises msg, st)"

definition interrupted_agent :: agent_executor where
  "interrupted_agent input st = (RaisesBaseException ''KeyboardInterrupt'', st)"

definition replying_agent :: "string \<Rightarrow> agent_executor" where
  "replying_agent reply_text input st = (Returns [''output'' \<mapsto> PyStr reply_text], st)"

definition empty_stores :: stores where
  "empty_stores = \<lparr>orders = [], inventory = [], tickets = []\<rparr>"




text \<open>
  \<open>get_metrics\<close> reads the metrics and returns the report with the metrics as they are.
  The divisions are Python's, which raise on a zero divisor. A rate is the float
  quotient of two \<open>int\<close>s, times 100 as a float product.

  How \<open>sum\<close> adds floats depends on the interpreter (from the left up to CPython
  3.11, with a compensation term since 3.12), so the float sum is the parameter
  \<open>fsum\<close>. \<open>left_to_right_sum\<close> is the first of the two. The number of latencies is
  below \<open>2^53\<close> and converts to a float exactly.
\<close>

type_synonym float_sum = "real list \<Rightarrow> real"

definition left_to_right_sum :: float_sum where
  "left_to_right_sum latencies = foldl (\<lambda>acc x. to_double (acc + x)) 0 latencies"

definition percentage :: "int \<Rightarrow> int \<Rightarrow> py_error + py_value" where
  "percentage part whole =
     (if whole > 0
      then (case int_truediv part whole of
              Inl e \<Rightarrow> Inl e | Inr x \<Rightarrow> Inr (PyFloat (to_double (x * 100))))
      else Inr (PyInt 0))"

definition avg_time :: "float_sum \<Rightarrow> real list \<Rightarrow> py_error + py_value" where
  "avg_time fsum latencies =
     (if latencies \<noteq> []
      then (case float_truediv (fsum latencies) (of_nat (length latencies)) of
              Inl e \<Rightarrow> Inl e | Inr x \<Rightarrow> Inr (PyFloat x))
      else Inr (PyInt 0))"

definition get_metrics :: "float_sum \<Rightarrow> metrics \<Rightarrow> (py_error + py_dict) \<times> metrics" where
  "get_metrics fsum m =
     (case avg_time fsum (average_response_time m) of
        Inl e \<Rightarrow> (Inl e, m)
      | Inr avg \<Rightarrow>
          (case percentage (successful_resolutions m) (total_queries m) of
             Inl e \<Rightarrow> (Inl e, m)
           | Inr resolution_rate \<Rightarrow>
               (case percentage (escalations m) (total_queries m) of
                  Inl e \<Rightarrow> (Inl e, m)
                | Inr escalation_rate \<Rightarrow>
                    (Inr [''total_queries'' \<mapsto> PyInt (total_queries m),
                          ''resolution_rate'' \<mapsto> resolution_rate,
                          ''escalation_rate'' \<mapsto> escalation_rate,
                          ''average_response_time'' \<mapsto> round2 avg], m))))"

section \<open>Properties of the text operations\<close>

lemma str_contains_iff_sublist: "str_contains needle s = sublist needle s"
  by (induction s) (auto simp: sublist_Cons_right)

lemma str_contains_middle: "str_contains x (before @ x @ after)"
  by (simp add: str_contains_iff_sublist)

section \<open>Properties of the return policy lookup\<close>

text \<open>
  Claim C6. \<open>check_return_policy\<close> is a total function from strings to strings (it has
  no error result): the policy for \<open>electronics\<close> contains \<open>30-day\<close>, the one for
  \<open>clothing\<close> contains \<open>60-day\<close>, the one for \<open>furniture\<close> contains \<open>14-day\<close>, and
  every other input yields the fixed fallback policy.
\<close>

theorem check_return_policy_total:
  "str_contains ''30-day'' (check_return_policy ''electronics'')
   \<and> str_contains ''60-day'' (check_return_policy ''clothing'')
   \<and> str_contains ''14-day'' (check_return_policy ''furniture'')
   \<and> (\<forall>product_type.
          product_type \<notin> {''electronics'', ''clothing'', ''furniture''} \<longrightarrow>
          check_return_policy product_type = ''Standard 30-day return policy applies'')"
  by (simp add: check_return_policy_def policies_def)

theorem check_return_policy_total_witness:
  "''toys'' \<notin> {''electronics'', ''clothing'', ''furniture''}
   \<and> check_return_policy ''toys'' = ''Standard 30-day return policy applies''
   \<and> str_contains ''30-day'' (check_return_policy ''electronics'')"
  using check_return_policy_total by simp

section \<open>Properties of the lookup tools\<close>

lemma fetchone_Some:
  "fetchone sql_eq param rows = Some row \<Longrightarrow> row \<in> set rows \<and> sql_eq (fst row) param"
  by (auto simp: fetchone_def find_Some_iff)

lemma fetchone_None_iff:
  "fetchone sql_eq param rows = None \<longleftrightarrow> (\<forall>row \<in> set rows. \<not> sql_eq (fst row) param)"
  unfolding fetchone_def find_None_iff by blast

lemma fetchone_present:
  assumes "\<exists>row \<in> set rows. sql_eq (fst row) param"
  shows "\<exists>r0 r1 r2 r3. fetchone sql_eq param rows = Some (r0, r1, r2, r3)"
proof (cases "fetchone sql_eq param rows")
  case None
  with assms show ?thesis by (simp add: fetchone_None_iff)
next
  case (Some row)
  then show ?thesis by (cases row) auto
qed

text \<open>
  Claim C4 says that the \<open>order_id\<close> of the reply equals the queried identifier. The
  reply carries the value stored in the row. On an integer id column the query text
  \<open>4\<close> finds the row whose id is the number 4, and the reply holds that number, not the
  text (the repository's tool tests call \<open>check_order_status("4")\<close> and compare the
  \<open>order_id\<close> with the number 4).
\<close>

theorem order_id_is_the_stored_value:
  "integer_column_eq (PyInt 4) (PyStr ''4'')
   \<and> fst (check_order_status integer_column_eq ''4''
             [(PyInt 4, PyStr ''shipped'', PyStr ''2024-01-15'', PyFloat 299.99)]) ''order_id''
       = Some (PyInt 4)
   \<and> PyInt 4 \<noteq> PyStr ''4''"
  by (simp add: check_order_status_def fetchone_def int_literal_def digit_value_def)

text \<open>
  Claim C4, amended. When the query finds a row, \<open>check_order_status\<close> returns a reply
  with exactly the keys \<open>order_id\<close>, \<open>status\<close>, \<open>order_date\<close> and \<open>total_amount\<close>,
  holding the four columns of the first matching row; its \<open>order_id\<close> is the stored
  identifier, which the store's comparison matches with the queried one. Every identifier
  that some row matches is found. When no row matches, the reply is exactly
  \<open>{"error": "Order not found"}\<close>. In both cases the table is unchanged. When the
  column compares as text, the \<open>order_id\<close> of the reply is the queried identifier.
\<close>

theorem check_order_status_reply:
  "(fetchone sql_eq (PyStr order_id) rows = Some (r0, r1, r2, r3) \<longrightarrow>
      check_order_status sql_eq order_id rows
        = ([''order_id'' \<mapsto> r0, ''status'' \<mapsto> r1, ''order_date'' \<mapsto> r2,
            ''total_amount'' \<mapsto> r3], rows)
      \<and> (r0, r1, r2, r3) \<in> set rows \<and> sql_eq r0 (PyStr order_id))
   \<and> ((\<exists>row \<in> set rows. sql_eq (fst row) (PyStr order_id)) \<longrightarrow>
        (\<exists>r0 r1 r2 r3. fetchone sql_eq (PyStr order_id) rows = Some (r0, r1, r2, r3)))
   \<and> ((\<forall>row \<in> set rows. \<not> sql_eq (fst row) (PyStr order_id)) \<longrightarrow>
        check_order_status sql_eq order_id rows
          = ([''error'' \<mapsto> PyStr ''Order not found''], rows))
   \<and> snd (check_order_status sql_eq order_id rows) = rows
   \<and> ((\<exists>row \<in> set rows. text_column_eq (fst row) (PyStr order_id)) \<longrightarrow>
        fst (check_order_status text_column_eq order_id rows) ''order_id''
          = Some (PyStr order_id))"
proof -
  have found: "check_order_status sql_eq order_id rows
        = ([''order_id'' \<mapsto> r0, ''status'' \<mapsto> r1, ''order_date'' \<mapsto> r2,
            ''total_amount'' \<mapsto> r3], rows)
      \<and> (r0, r1, r2, r3) \<in> set rows \<and> sql_eq r0 (PyStr order_id)"
    if "fetchone sql_eq (PyStr order_id) rows = Some (r0, r1, r2, r3)"
    using that fetchone_Some [OF that] by (simp add: check_order_status_def)
  have absent: "check_order_status sql_eq order_id rows
          = ([''error'' \<mapsto> PyStr ''Order not found''], rows)"
    if "\<forall>row \<in> set rows. \<not> sql_eq (fst row) (PyStr order_id)"
    using that fetchone_None_iff [of sql_eq "PyStr order_id" rows]
    by (simp add: check_order_status_def)
  have frame: "snd (check_order_status sql_eq order_id rows) = rows"
    by (simp add: check_order_status_def split: option.splits prod.splits)
  have as_text: "fst (check_order_status text_column_eq order_id rows) ''order_id''
          = Some (PyStr order_id)"
    if "\<exists>row \<in> set rows. text_column_eq (fst row) (PyStr order_id)"
  proof -
    from that fetchone_present [where rows = rows and sql_eq = text_column_eq] obtain r0 r1 r2 r3
      where f: "fetchone text_column_eq (PyStr order_id) rows = Some (r0, r1, r2, r3)"
      by blast
    from fetchone_Some [OF f] have "r0 = PyStr order_id"
      by (simp add: text_column_eq_def)
    with f show ?thesis by (simp add: check_order_status_def)
  qed
  from found absent frame as_text
    fetchone_present [where rows = rows and sql_eq = sql_eq and param = "PyStr order_id"]
  show ?thesis by blast
qed

theorem check_order_status_reply_witness:
  "fetchone integer_column_eq (PyStr ''4'')
       [(PyInt 3, PyStr ''pending'', PyStr ''2024-01-12'', PyFloat 10),
        (PyInt 4, PyStr ''shipped'', PyStr ''2024-01-15'', PyFloat 299.99)]
     = Some (PyInt 4, PyStr ''shipped'', PyStr ''2024-01-15'', PyFloat 299.99)
   \<and> check_order_status integer_column_eq ''4''
       [(PyInt 3, PyStr ''pending'', PyStr ''2024-01-12'', PyFloat 10),
        (PyInt 4, PyStr ''shipped'', PyStr ''2024-01-15'', PyFloat 299.99)]
     = ([''order_id'' \<mapsto> PyInt 4, ''status'' \<mapsto> PyStr ''shipped'',
         ''order_date'' \<mapsto> PyStr ''2024-01-15'', ''total_amount'' \<mapsto> PyFloat 299.99],
        [(PyInt 3, PyStr ''pending'', PyStr ''2024-01-12'', PyFloat 10),
         (PyInt 4, PyStr ''shipped'', PyStr ''2024-01-15'', PyFloat 299.99)])
   \<and> \<not> integer_column_eq (PyInt 4) (PyStr ''999'')
   \<and> check_order_status integer_column_eq ''999''
         [(PyInt 4, PyStr ''shipped'', PyStr ''2024-01-15'', PyFloat 299.99)]
       = ([''error'' \<mapsto> PyStr ''Order not found''],
          [(PyInt 4, PyStr ''shipped'', PyStr ''2024-01-15'', PyFloat 299.99)])
   \<and> text_column_eq (PyStr ''A-17'') (PyStr ''A-17'')
   \<and> fst (check_order_status text_column_eq ''A-17''
             [(PyStr ''A-17'', PyStr ''shipped'', PyStr ''2024-01-15'', PyFloat 299.99)])
         ''order_id'' = Some (PyStr ''A-17'')"
proof -
  have lit: "int_literal ''4'' = Some 4" "int_literal ''999'' = Some 999"
    by (simp_all add: int_literal_def digit_value_def)
  show ?thesis
    using check_order_status_reply
            [where sql_eq = integer_column_eq and order_id = "''4''"
               and rows = "[(PyInt 3, PyStr ''pending'', PyStr ''2024-01-12'', PyFloat 10),
                            (PyInt 4, PyStr ''shipped'', PyStr ''2024-01-15'', PyFloat 299.99)]"
               and ?r0.0 = "PyInt 4" and ?r1.0 = "PyStr ''shipped''"
               and ?r2.0 = "PyStr ''2024-01-15''" and ?r3.0 = "PyFloat 299.99"]
          check_order_status_reply
            [where sql_eq = integer_column_eq and order_id = "''999''"
               and rows = "[(PyInt 4, PyStr ''shipped'', PyStr ''2024-01-15'', PyFloat 299.99)]"]
          check_order_status_reply
            [where order_id = "''A-17''"
               and rows = "[(PyStr ''A-17'', PyStr ''shipped'', PyStr ''2024-01-15'', PyFloat 299.99)]"]
    by (simp add: fetchone_def lit text_column_eq_def)
qed

text \<open>
  Claim C5. When the query finds a row whose quantity is the integer \<open>q\<close> (in
  particular when the product identifier is present in the inventory table in one row,
  with quantity \<open>q\<close>), \<open>check_inventory\<close> returns a reply with the keys
  \<open>product_id\<close>, \<open>name\<close>, \<open>in_stock\<close>, \<open>quantity\<close> and \<open>next_restock\<close> in which
  \<open>in_stock\<close> is \<open>q > 0\<close>. When no row matches, the reply is exactly
  \<open>{"error": "Product not found"}\<close>.
\<close>

theorem check_inventory_in_stock:
  "(fetchone sql_eq (PyStr product_id) rows = Some (r0, r1, PyInt q, r3) \<longrightarrow>
      check_inventory sql_eq product_id rows
        = Inr [''product_id'' \<mapsto> r0, ''name'' \<mapsto> r1, ''in_stock'' \<mapsto> PyBool (q > 0),
               ''quantity'' \<mapsto> PyInt q, ''next_restock'' \<mapsto> r3])
   \<and> ((r0, r1, PyInt q, r3) \<in> set rows \<and> sql_eq r0 (PyStr product_id)
        \<and> (\<forall>row \<in> set rows. sql_eq (fst row) (PyStr product_id) \<longrightarrow> row = (r0, r1, PyInt q, r3))
        \<longrightarrow>
        check_inventory sql_eq product_id rows
          = Inr [''product_id'' \<mapsto> r0, ''name'' \<mapsto> r1, ''in_stock'' \<mapsto> PyBool (q > 0),
                 ''quantity'' \<mapsto> PyInt q, ''next_restock'' \<mapsto> r3])
   \<and> ((\<forall>row \<in> set rows. \<not> sql_eq (fst row) (PyStr product_id)) \<longrightarrow>
        check_inventory sql_eq product_id rows = Inr [''error'' \<mapsto> PyStr ''Product not found''])"
proof -
  have found: "check_inventory sql_eq product_id rows
        = Inr [''product_id'' \<mapsto> r0, ''name'' \<mapsto> r1, ''in_stock'' \<mapsto> PyBool (q > 0),
               ''quantity'' \<mapsto> PyInt q, ''next_restock'' \<mapsto> r3]"
    if "fetchone sql_eq (PyStr product_id) rows = Some (r0, r1, PyInt q, r3)"
    using that by (simp add: check_inventory_def)
  have only: "fetchone sql_eq (PyStr product_id) rows = Some (r0, r1, PyInt q, r3)"
    if "(r0, r1, PyInt q, r3) \<in> set rows" "sql_eq r0 (PyStr product_id)"
       "\<forall>row \<in> set rows. sql_eq (fst row) (PyStr product_id) \<longrightarrow> row = (r0, r1, PyInt q, r3)"
  proof (cases "fetchone sql_eq (PyStr product_id) rows")
    case None
    with that(1,2) show ?thesis by (force simp: fetchone_None_iff)
  next
    case (Some row)
    from fetchone_Some [OF Some] that(3) have "row = (r0, r1, PyInt q, r3)" by blast
    with Some show ?thesis by simp
  qed
  have absent: "check_inventory sql_eq product_id rows = Inr [''error'' \<mapsto> PyStr ''Product not found'']"
    if "\<forall>row \<in> set rows. \<not> sql_eq (fst row) (PyStr product_id)"
    using that fetchone_None_iff [of sql_eq "PyStr product_id" rows]
    by (simp add: check_inventory_def)
  from found only absent show ?thesis by blast
qed

theorem check_inventory_in_stock_witness:
  "fetchone text_column_eq (PyStr ''PROD-XYZ'')
       [(PyStr ''PROD-ABC'', PyStr ''Desk Lamp'', PyInt 0, PyStr ''2024-03-01''),
        (PyStr ''PROD-XYZ'', PyStr ''Wireless Headphones'', PyInt 15, PyStr ''2024-02-01'')]
     = Some (PyStr ''PROD-XYZ'', PyStr ''Wireless Headphones'', PyInt 15, PyStr ''2024-02-01'')
   \<and> check_inventory text_column_eq ''PROD-XYZ''
       [(PyStr ''PROD-ABC'', PyStr ''Desk Lamp'', PyInt 0, PyStr ''2024-03-01''),
        (PyStr ''PROD-XYZ'', PyStr ''Wireless Headphones'', PyInt 15, PyStr ''2024-02-01'')]
     = Inr [''product_id'' \<mapsto> PyStr ''PROD-XYZ'', ''name'' \<mapsto> PyStr ''Wireless Headphones'',
            ''in_stock'' \<mapsto> PyBool True, ''quantity'' \<mapsto> PyInt 15,
            ''next_restock'' \<mapsto> PyStr ''2024-02-01'']
   \<and> (PyStr ''PROD-ABC'', PyStr ''Desk Lamp'', PyInt 0, PyStr ''2024-03-01'')
        \<in> set [(PyStr ''PROD-ABC'', PyStr ''Desk Lamp'', PyInt 0, PyStr ''2024-03-01'')]
   \<and> text_column_eq (PyStr ''PROD-ABC'') (PyStr ''PROD-ABC'')
   \<and> check_inventory text_column_eq ''PROD-ABC''
       [(PyStr ''PROD-ABC'', PyStr ''Desk Lamp'', PyInt 0, PyStr ''2024-03-01'')]
     = Inr [''product_id'' \<mapsto> PyStr ''PROD-ABC'', ''name'' \<mapsto> PyStr ''Desk Lamp'',
            ''in_stock'' \<mapsto> PyBool False, ''quantity'' \<mapsto> PyInt 0,
            ''next_restock'' \<mapsto> PyStr ''2024-03-01'']
   \<and> \<not> text_column_eq (PyStr ''PROD-ABC'') (PyStr ''NON-EXISTENT'')
   \<and> check_inventory text_column_eq ''NON-EXISTENT''
       [(PyStr ''PROD-ABC'', PyStr ''Desk Lamp'', PyInt 0, PyStr ''2024-03-01'')]
     = Inr [''error'' \<mapsto> PyStr ''Product not found'']"
  using check_inventory_in_stock
          [where sql_eq = text_column_eq and product_id = "''PROD-XYZ''"
             and rows = "[(PyStr ''PROD-ABC'', PyStr ''Desk Lamp'', PyInt 0, PyStr ''2024-03-01''),
                          (PyStr ''PROD-XYZ'', PyStr ''Wireless Headphones'', PyInt 15,
                           PyStr ''2024-02-01'')]"
             and ?r0.0 = "PyStr ''PROD-XYZ''" and ?r1.0 = "PyStr ''Wireless Headphones''"
             and q = 15 and ?r3.0 = "PyStr ''2024-02-01''"]
        check_inventory_in_stock
          [where sql_eq = text_column_eq and product_id = "''PROD-ABC''"
             and rows = "[(PyStr ''PROD-ABC'', PyStr ''Desk Lamp'', PyInt 0, PyStr ''2024-03-01'')]"
             and ?r0.0 = "PyStr ''PROD-ABC''" and ?r1.0 = "PyStr ''Desk Lamp''"
             and q = 0 and ?r3.0 = "PyStr ''2024-03-01''"]
        check_inventory_in_stock
          [where sql_eq = text_column_eq and product_id = "''NON-EXISTENT''"
             and rows = "[(PyStr ''PROD-ABC'', PyStr ''Desk Lamp'', PyInt 0, PyStr ''2024-03-01'')]"]
  by (simp add: fetchone_def text_column_eq_def)

section \<open>Properties of ticket creation\<close>

lemma digit_value_digit_char: "d < 10 \<Longrightarrow> digit_value (digit_char d) = Some d"
  by (simp add: digit_value_def digit_char_def)

lemma digits_value_snoc:
  "d < 10 \<Longrightarrow>
   digits_value acc (s @ [digit_char d]) = map_option (\<lambda>v. 10 * v + d) (digits_value acc s)"
  by (induction s arbitrary: acc) (auto simp: digit_value_digit_char split: option.splits)

lemma digits_value_decimal: "digits_value 0 (decimal n) = Some n"
proof (induction n rule: decimal.induct)
  case (1 n)
  show ?case
  proof (cases "n < 10")
    case True
    then show ?thesis
      by (simp add: decimal.simps [of n] digit_value_digit_char)
  next
    case False
    with 1 show ?thesis
      by (simp add: decimal.simps [of n] digits_value_snoc)
  qed
qed

lemma digits_value_zeros:
  "digits_value 0 (replicate k (CHR ''0'') @ s) = digits_value 0 s"
  by (induction k) (simp_all add: digit_value_def)

lemma digits_value_zero_pad: "digits_value 0 (zero_pad w (decimal n)) = Some n"
  by (simp add: zero_pad_def digits_value_zeros digits_value_decimal)

lemma zero_pad_decimal_inj:
  assumes "zero_pad w (decimal a) = zero_pad w (decimal b)"
  shows "a = b"
proof -
  have "Some a = digits_value 0 (zero_pad w (decimal a))"
    by (simp only: digits_value_zero_pad)
  also have "\<dots> = digits_value 0 (zero_pad w (decimal b))"
    by (simp only: assms)
  also have "\<dots> = Some b"
    by (simp only: digits_value_zero_pad)
  finally show ?thesis by simp
qed

lemma length_decimal_2: "n < 100 \<Longrightarrow> length (decimal n) \<le> 2"
  by (simp add: decimal.simps [of n] decimal.simps [of "n div 10"])

lemma length_decimal_4: "n < 10000 \<Longrightarrow> length (decimal n) \<le> 4"
  by (simp add: decimal.simps [of n] decimal.simps [of "n div 10"]
        decimal.simps [of "n div 10 div 10"] decimal.simps [of "n div 10 div 10 div 10"])

lemma length_zero_pad: "length s \<le> w \<Longrightarrow> length (zero_pad w s) = w"
  by (simp add: zero_pad_def)

lemma strftime_inj:
  assumes "wf_datetime t1" "wf_datetime t2" "strftime t1 = strftime t2"
  shows "to_the_second t1 = to_the_second t2"
proof -
  have len4: "length (zero_pad 4 (decimal (year t))) = 4" if "wf_datetime t" for t
    using that by (simp add: wf_datetime_def length_zero_pad length_decimal_4)
  have len2: "length (zero_pad 2 (decimal (month t))) = 2"
    "length (zero_pad 2 (decimal (day t))) = 2"
    "length (zero_pad 2 (decimal (hour t))) = 2"
    "length (zero_pad 2 (decimal (minute t))) = 2"
    "length (zero_pad 2 (decimal (second t))) = 2" if "wf_datetime t" for t
    using that by (simp_all add: wf_datetime_def length_zero_pad length_decimal_2)
  from assms(3) have
    "zero_pad 4 (decimal (year t1)) = zero_pad 4 (decimal (year t2))
     \<and> zero_pad 2 (decimal (month t1)) = zero_pad 2 (decimal (month t2))
     \<and> zero_pad 2 (decimal (day t1)) = zero_pad 2 (decimal (day t2))
     \<and> zero_pad 2 (decimal (hour t1)) = zero_pad 2 (decimal (hour t2))
     \<and> zero_pad 2 (decimal (minute t1)) = zero_pad 2 (decimal (minute t2))
     \<and> zero_pad 2 (decimal (second t1)) = zero_pad 2 (decimal (second t2))"
    unfolding strftime_def
    by (simp add: append_eq_append_conv len4 [OF assms(1)] len4 [OF assms(2)]
          len2 [OF assms(1)] len2 [OF assms(2)])
  then show ?thesis
    by (auto simp: to_the_second_def dest: zero_pad_decimal_inj)
qed

lemma strftime_to_the_second:
  "to_the_second t1 = to_the_second t2 \<Longrightarrow> strftime t1 = strftime t2"
  by (simp add: to_the_second_def strftime_def)

lemma create_support_tickets_rows:
  "snd (create_support_tickets calls rows) = rows @ map open_ticket calls"
  by (induction calls rows rule: create_support_tickets.induct)
     (simp_all add: create_support_ticket_def new_ticket_id_def open_ticket_def Let_def
        case_prod_beta)

text \<open>
  Claim C8. Every call of \<open>create_support_ticket\<close> builds the identifier as \<open>TKT-\<close>
  followed by the clock reading printed to the second, appends exactly one row, with that
  identifier and status \<open>open\<close>, and returns a confirmation text that contains the
  identifier. A sequence of N calls appends N rows, all open, in call order. Two readings
  that differ at second resolution give different identifiers; two readings within the
  same second give the same identifier.
\<close>

theorem create_support_ticket_appends:
  "(case create_support_ticket now email issue_text prio rows of
      (msg, rows') \<Rightarrow>
        rows' = rows @ [\<lparr>ticket_id = ''TKT-'' @ strftime now, customer_email = email,
                         issue = issue_text, priority = prio, status = ''open''\<rparr>]
        \<and> str_contains (''TKT-'' @ strftime now) msg)
   \<and> snd (create_support_tickets calls rows) = rows @ map open_ticket calls
   \<and> length (snd (create_support_tickets calls rows)) = length rows + length calls
   \<and> (\<forall>t \<in> set (map open_ticket calls). status t = ''open'')
   \<and> (wf_datetime t1 \<and> wf_datetime t2 \<and> to_the_second t1 \<noteq> to_the_second t2 \<longrightarrow>
        new_ticket_id t1 \<noteq> new_ticket_id t2)
   \<and> (to_the_second t1 = to_the_second t2 \<longrightarrow> new_ticket_id t1 = new_ticket_id t2)"
proof -
  have one: "case create_support_ticket now email issue_text prio rows of
      (msg, rows') \<Rightarrow>
        rows' = rows @ [\<lparr>ticket_id = ''TKT-'' @ strftime now, customer_email = email,
                         issue = issue_text, priority = prio, status = ''open''\<rparr>]
        \<and> str_contains (''TKT-'' @ strftime now) msg"
    by (simp only: create_support_ticket_def new_ticket_id_def Let_def prod.case
          str_contains_middle simp_thms)
  have all_open: "\<forall>t \<in> set (map open_ticket calls). status t = ''open''"
    by (auto simp: open_ticket_def)
  have differ: "new_ticket_id t1 \<noteq> new_ticket_id t2"
    if "wf_datetime t1" "wf_datetime t2" "to_the_second t1 \<noteq> to_the_second t2"
    using that strftime_inj [of t1 t2] by (auto simp: new_ticket_id_def)
  have collide: "new_ticket_id t1 = new_ticket_id t2" if "to_the_second t1 = to_the_second t2"
    using strftime_to_the_second [OF that] by (simp add: new_ticket_id_def)
  from one all_open differ collide show ?thesis
    by (simp add: create_support_tickets_rows)
qed

theorem create_support_ticket_appends_witness:
  "wf_datetime \<lparr>year = 2024, month = 3, day = 7, hour = 9, minute = 5, second = 0,
                 microsecond = 12\<rparr>
   \<and> wf_datetime \<lparr>year = 2024, month = 3, day = 7, hour = 9, minute = 5, second = 1,
                   microsecond = 0\<rparr>
   \<and> to_the_second \<lparr>year = 2024, month = 3, day = 7, hour = 9, minute = 5, second = 0,
                     microsecond = 12\<rparr>
       \<noteq> to_the_second \<lparr>year = 2024, month = 3, day = 7, hour = 9, minute = 5, second = 1,
                          microsecond = 0\<rparr>
   \<and> new_ticket_id \<lparr>year = 2024, month = 3, day = 7, hour = 9, minute = 5, second = 0,
                     microsecond = 12\<rparr> = ''TKT-20240307090500''
   \<and> new_ticket_id \<lparr>year = 2024, month = 3, day = 7, hour = 9, minute = 5, second = 0,
                     microsecond = 12\<rparr>
       \<noteq> new_ticket_id \<lparr>year = 2024, month = 3, day = 7, hour = 9, minute = 5, second = 1,
                          microsecond = 0\<rparr>
   \<and> to_the_second \<lparr>year = 2024, month = 3, day = 7, hour = 9, minute = 5, second = 0,
                     microsecond = 12\<rparr>
       = to_the_second \<lparr>year = 2024, month = 3, day = 7, hour = 9, minute = 5, second = 0,
                        microsecond = 999999\<rparr>
   \<and> new_ticket_id \<lparr>year = 2024, month = 3, day = 7, hour = 9, minute = 5, second = 0,
                     microsecond = 12\<rparr>
       = new_ticket_id \<lparr>year = 2024, month = 3, day = 7, hour = 9, minute = 5, second = 0,
                        microsecond = 999999\<rparr>
   \<and> map status
         (map open_ticket
            [(\<lparr>year = 2024, month = 3, day = 7, hour = 9, minute = 5, second = 0,
                microsecond = 12\<rparr>, ''ann@example.com'', ''Refund missing'', ''high'')])
       = [''open'']
   \<and> length (snd (create_support_tickets
                    [(\<lparr>year = 2024, month = 3, day = 7, hour = 9, minute = 5, second = 0,
                        microsecond = 12\<rparr>, ''ann@example.com'', ''Refund missing'', ''high'')]
                    [])) = 1"
proof -
  let ?a = "\<lparr>year = 2024, month = 3, day = 7, hour = 9, minute = 5, second = 0,
             microsecond = 12\<rparr>"
  let ?b = "\<lparr>year = 2024, month = 3, day = 7, hour = 9, minute = 5, second = 1,
             microsecond = 0\<rparr>"
  let ?c = "\<lparr>year = 2024, month = 3, day = 7, hour = 9, minute = 5, second = 0,
             microsecond = 999999\<rparr>"
  let ?calls = "[(?a, ''ann@example.com'', ''Refund missing'', ''high'')]"
  have wf: "wf_datetime ?a" "wf_datetime ?b"
    by (simp_all add: wf_datetime_def)
  have ne: "to_the_second ?a \<noteq> to_the_second ?b"
    by (simp add: to_the_second_def)
  have same: "to_the_second ?a = to_the_second ?c"
    by (simp add: to_the_second_def)
  have tid: "new_ticket_id ?a = ''TKT-20240307090500''"
    by code_simp
  note distinct_case =
    create_support_ticket_appends [where ?t1.0 = ?a and ?t2.0 = ?b and calls = ?calls
                                     and rows = "[]"]
  note same_case = create_support_ticket_appends [where ?t1.0 = ?a and ?t2.0 = ?c]
  from distinct_case wf ne have differ: "new_ticket_id ?a \<noteq> new_ticket_id ?b"
    by blast
  from same_case same have collide: "new_ticket_id ?a = new_ticket_id ?c"
    by blast
  from distinct_case have "\<forall>t \<in> set (map open_ticket ?calls). status t = ''open''"
    by blast
  then have all_open: "map status (map open_ticket ?calls) = [''open'']"
    by simp
  from distinct_case
  have "length (snd (create_support_tickets ?calls [])) = length ([] :: ticket list) + length ?calls"
    by blast
  then have one: "length (snd (create_support_tickets ?calls [])) = 1"
    by simp
  show ?thesis
    by (intro conjI) (fact wf ne tid differ same collide all_open one)+
qed

section \<open>Properties of float arithmetic\<close>

lemma round_half_even_near: "\<bar>of_int (round_half_even y) - y\<bar> \<le> 1 / 2"
proof -
  have "of_int \<lfloor>y\<rfloor> \<le> y" "y < of_int \<lfloor>y\<rfloor> + 1" by linarith+
  then show ?thesis
    by (auto simp: round_half_even_def Let_def)
qed

lemma pow2_powr: "pow2 e = 2 powr (of_int e)"
  by (simp add: pow2_def powr_real_of_int inverse_eq_divide)

lemma pow2_pos: "0 < pow2 e"
  by (simp add: pow2_powr)

lemma pow2_mono: "a \<le> b \<Longrightarrow> pow2 a \<le> pow2 b"
  by (simp add: pow2_powr)

lemma binade_eq:
  assumes "pow2 e \<le> \<bar>x\<bar>" "\<bar>x\<bar> < pow2 (e + 1)" "- 1022 \<le> e"
  shows "binade x = e"
proof -
  have pos: "0 < \<bar>x\<bar>" using assms(1) pow2_pos [of e] by linarith
  have "\<lfloor>log 2 \<bar>x\<bar>\<rfloor> = e"
    using assms(1,2) floor_log_eq_powr_iff [OF pos, of 2 e]
    by (simp add: pow2_powr)
  with assms(3) show ?thesis by (simp add: binade_def)
qed

lemma to_double_eval:
  assumes "pow2 e \<le> \<bar>x\<bar>" "\<bar>x\<bar> < pow2 (e + 1)" "- 1022 \<le> e"
  shows "to_double x = of_int (round_half_even (x / pow2 (e - 52))) * pow2 (e - 52)"
proof -
  have "x \<noteq> 0" using assms(1) pow2_pos [of e] by auto
  then show ?thesis
    by (simp add: to_double_def binade_eq [OF assms])
qed

lemma to_double_0: "to_double 0 = 0"
  by (simp add: to_double_def)

lemma to_double_1: "to_double 1 = 1"
  by (subst to_double_eval [where e = 0]) (simp_all add: pow2_def round_half_even_def)

lemma to_double_100: "to_double 100 = 100"
  by (subst to_double_eval [where e = 6]) (simp_all add: pow2_def round_half_even_def)

lemma to_double_near: "\<bar>to_double x - x\<bar> \<le> pow2 (binade x - 52) / 2"
proof (cases "x = 0")
  case True
  then show ?thesis using pow2_pos [of "binade x - 52"] by (simp add: to_double_def)
next
  case False
  let ?u = "pow2 (binade x - 52)"
  have u: "0 < ?u" by (rule pow2_pos)
  have "\<bar>of_int (round_half_even (x / ?u)) - x / ?u\<bar> * ?u \<le> 1 / 2 * ?u"
    using round_half_even_near [of "x / ?u"] u by (intro mult_right_mono) auto
  moreover have "\<bar>of_int (round_half_even (x / ?u)) - x / ?u\<bar> * ?u
                 = \<bar>of_int (round_half_even (x / ?u)) * ?u - x\<bar>"
  proof -
    have "(of_int (round_half_even (x / ?u)) - x / ?u) * ?u
          = of_int (round_half_even (x / ?u)) * ?u - x"
      using u by (simp add: field_simps)
    moreover have "\<bar>(of_int (round_half_even (x / ?u)) - x / ?u) * ?u\<bar>
          = \<bar>of_int (round_half_even (x / ?u)) - x / ?u\<bar> * ?u"
      using u by (simp add: abs_mult)
    ultimately show ?thesis by simp
  qed
  ultimately show ?thesis using False by (simp add: to_double_def)
qed

lemma binade_le_0:
  assumes "x \<noteq> 0" "\<bar>x\<bar> \<le> 1"
  shows "binade x \<le> 0"
proof -
  from assms have "log 2 \<bar>x\<bar> \<le> 0"
    by (simp add: log_le_zero_cancel_iff)
  then have "\<lfloor>log 2 \<bar>x\<bar>\<rfloor> \<le> 0" by (simp add: floor_le_zero)
  then show ?thesis by (simp add: binade_def)
qed

lemma to_double_small:
  assumes "\<bar>x\<bar> \<le> 1"
  shows "\<bar>to_double x\<bar> \<le> 2"
proof (cases "x = 0")
  case True
  then show ?thesis by (simp add: to_double_def)
next
  case False
  have "pow2 (binade x - 52) \<le> pow2 0"
    using binade_le_0 [OF False assms] by (intro pow2_mono) simp
  then have "pow2 (binade x - 52) \<le> 1" by (simp add: pow2_def)
  with to_double_near [of x] assms show ?thesis by linarith
qed

lemma int_truediv_in_range:
  assumes "0 < b" "\<bar>a\<bar> \<le> b"
  shows "int_truediv a b = Inr (to_double (of_int a / of_int b))"
proof -
  have "\<bar>real_of_int a / real_of_int b\<bar> \<le> 1"
    using assms by simp
  from to_double_small [OF this] have le2: "\<bar>to_double (of_int a / of_int b)\<bar> \<le> 2" .
  have "(2::real) ^ 1 < 2 ^ 1024"
    by (rule power_strict_increasing) simp_all
  with le2 have "\<not> 2 ^ 1024 \<le> \<bar>to_double (of_int a / of_int b)\<bar>"
    by (simp only: power_one_right)
  moreover have "b \<noteq> 0" using assms(1) by simp
  ultimately show ?thesis
    unfolding int_truediv_def by (simp only: if_not_P if_False)
qed

section \<open>Properties of the metrics report\<close>




lemma percentage_in_range:
  "0 < whole \<Longrightarrow> \<bar>part\<bar> \<le> whole \<Longrightarrow>
   percentage part whole
     = Inr (PyFloat (to_double (to_double (of_int part / of_int whole) * 100)))"
  by (simp add: percentage_def int_truediv_in_range)

lemma avg_time_Inr:
  "avg_time fsum latencies
     = Inr (if latencies \<noteq> []
            then PyFloat (to_double (fsum latencies / of_nat (length latencies)))
            else PyInt 0)"
  by (simp add: avg_time_def float_truediv_def)


lemma get_metrics_frame: "snd (get_metrics fsum m) = m"
  by (simp add: get_metrics_def split: sum.splits)




text \<open>
  Claim C10. \<open>get_metrics\<close> is read-only: it leaves the metrics state (the three
  counters and the latency sequence) as it found it, and a second call right after the
  first returns the same result.
\<close>

theorem get_metrics_read_only:
  "snd (get_metrics fsum m) = m
   \<and> get_metrics fsum (snd (get_metrics fsum m)) = get_metrics fsum m"
  by (simp add: get_metrics_frame)






section \<open>Properties of the monitored runner\<close>

lemma run_Returns_text:
  "agent [''input'' \<mapsto> PyStr query] st = (Returns result, st') \<Longrightarrow>
   result ''output'' = Some (PyStr output) \<Longrightarrow>
   run agent start_time end_time query m st
     = (Inr [''status'' \<mapsto> PyStr ''success'', ''response'' \<mapsto> PyStr output,
             ''response_time'' \<mapsto>
                PyFloat (to_double (real_of_int (end_time - start_time) / 1000000))],
        (if str_contains ''ticket'' (lower output)
         then m\<lparr>total_queries := total_queries m + 1,
                average_response_time :=
                  average_response_time m
                  @ [to_double (real_of_int (end_time - start_time) / 1000000)],
                escalations := escalations m + 1\<rparr>
         else m\<lparr>total_queries := total_queries m + 1,
                average_response_time :=
                  average_response_time m
                  @ [to_double (real_of_int (end_time - start_time) / 1000000)],
                successful_resolutions := successful_resolutions m + 1\<rparr>),
        st')"
  by (simp add: run_def Let_def)






text \<open>
  Claim C2 says that the reply on the fault path has a non-empty \<open>error\<close> field. The
  field holds \<open>str(e)\<close>, and an exception raised without a message has the empty
  text.
\<close>

theorem fault_with_empty_message:
  "fst (run (raising_agent []) 0 1500000 ''Where is my order?'' init_metrics empty_stores)
     = Inr [''status'' \<mapsto> PyStr ''error'',
            ''response''
              \<mapsto> PyStr ''I apologize, but I encountered an error. A support ticket has been created.'',
            ''error'' \<mapsto> PyStr []]"
  by (simp add: run_def raising_agent_def error_reply_def apology_def)

text \<open>
  Claim C2, amended. When the dispatcher call raises an exception derived from
  \<open>Exception\<close>, \<open>run\<close> returns a reply whose status is \<open>error\<close>, whose response
  is the fixed apology, and whose \<open>error\<close> field is present and holds the text of the
  exception (empty when that text is); the resolved and the escalated counter stay as
  they were; and the stores, the tickets among them, are left as the dispatcher left
  them: \<open>run\<close> creates no ticket.
\<close>

theorem run_fault_reply:
  assumes "agent [''input'' \<mapsto> PyStr query] st = (Raises msg, st')"
  shows "case run agent start_time end_time query m st of
           (outcome, m', st'') \<Rightarrow>
             outcome
               = Inr [''status'' \<mapsto> PyStr ''error'',
                      ''response''
                        \<mapsto> PyStr ''I apologize, but I encountered an error. A support ticket has been created.'',
                      ''error'' \<mapsto> PyStr msg]
             \<and> successful_resolutions m' = successful_resolutions m
             \<and> escalations m' = escalations m
             \<and> st'' = st'"
  using assms by (simp add: run_def error_reply_def apology_def)

theorem run_fault_reply_witness:
  "raising_agent ''database is locked'' [''input'' \<mapsto> PyStr ''Where is my order?''] empty_stores
     = (Raises ''database is locked'', empty_stores)
   \<and> fst (run (raising_agent ''database is locked'') 0 1500000 ''Where is my order?''
            init_metrics empty_stores)
       = Inr [''status'' \<mapsto> PyStr ''error'',
              ''response''
                \<mapsto> PyStr ''I apologize, but I encountered an error. A support ticket has been created.'',
              ''error'' \<mapsto> PyStr ''database is locked'']
   \<and> tickets (snd (snd (run (raising_agent ''database is locked'') 0 1500000
                          ''Where is my order?'' init_metrics empty_stores))) = []"
  using run_fault_reply
          [where agent = "raising_agent ''database is locked''"
             and query = "''Where is my order?''" and st = empty_stores
             and msg = "''database is locked''" and st' = empty_stores
             and start_time = 0 and end_time = 1500000 and m = init_metrics]
  by (simp add: raising_agent_def empty_stores_def split: prod.splits)

text \<open>
  Claim C9 says that \<open>run\<close> never propagates an exception of the dispatcher. The
  handler is \<open>except Exception\<close>; a \<open>KeyboardInterrupt\<close> during the dispatcher call
  is not caught and leaves \<open>run\<close>.
\<close>

theorem interrupt_leaves_run:
  "fst (run interrupted_agent 0 1500000 ''Where is my order?'' init_metrics empty_stores)
     = Inl (Propagated ''KeyboardInterrupt'')"
  by (simp add: run_def interrupted_agent_def)

text \<open>
  Claim C9, amended. When the dispatcher call raises an exception derived from
  \<open>Exception\<close>, \<open>run\<close> does not propagate it: it returns a reply with status
  \<open>error\<close> and no \<open>response_time\<close> key, \<open>total_queries\<close> has grown by one, and
  the latency sequence is unchanged. When the dispatcher call raises any other exception,
  that exception leaves \<open>run\<close>; \<open>total_queries\<close> has grown by one all the same and
  the latency sequence is unchanged. A reply of \<open>run\<close> has a \<open>response_time\<close> key
  only when its status is \<open>success\<close>.
\<close>

theorem run_fault_counts_query:
  "(agent [''input'' \<mapsto> PyStr query] st = (Raises msg, st') \<longrightarrow>
      (case run agent start_time end_time query m st of
         (outcome, m', st'') \<Rightarrow>
           (\<exists>reply. outcome = Inr reply
              \<and> reply ''status'' = Some (PyStr ''error'')
              \<and> reply ''response_time'' = None)
           \<and> total_queries m' = total_queries m + 1
           \<and> average_response_time m' = average_response_time m))
   \<and> (agent [''input'' \<mapsto> PyStr query] st = (RaisesBaseException name, st') \<longrightarrow>
        (case run agent start_time end_time query m st of
           (outcome, m', st'') \<Rightarrow>
             outcome = Inl (Propagated name)
             \<and> total_queries m' = total_queries m + 1
             \<and> average_response_time m' = average_response_time m))
   \<and> (fst (run agent start_time end_time query m st) = Inr reply
        \<and> reply ''response_time'' \<noteq> None \<longrightarrow>
        reply ''status'' = Some (PyStr ''success''))"
proof -
  have caught: "case run agent start_time end_time query m st of
         (outcome, m', st'') \<Rightarrow>
           (\<exists>reply. outcome = Inr reply
              \<and> reply ''status'' = Some (PyStr ''error'')
              \<and> reply ''response_time'' = None)
           \<and> total_queries m' = total_queries m + 1
           \<and> average_response_time m' = average_response_time m"
    if "agent [''input'' \<mapsto> PyStr query] st = (Raises msg, st')"
    using that by (simp add: run_def error_reply_def)
  have uncaught: "case run agent start_time end_time query m st of
           (outcome, m', st'') \<Rightarrow>
             outcome = Inl (Propagated name)
             \<and> total_queries m' = total_queries m + 1
             \<and> average_response_time m' = average_response_time m"
    if "agent [''input'' \<mapsto> PyStr query] st = (RaisesBaseException name, st')"
    using that by (simp add: run_def)
  have timed: "reply ''status'' = Some (PyStr ''success'')"
    if "fst (run agent start_time end_time query m st) = Inr reply"
       "reply ''response_time'' \<noteq> None"
    using that
    by (auto simp: run_def Let_def error_reply_def
             split: prod.splits agent_result.splits option.splits py_value.splits if_splits)
  from caught uncaught timed show ?thesis
    by blast
qed

theorem run_fault_counts_query_witness:
  "raising_agent ''database is locked'' [''input'' \<mapsto> PyStr ''Where is my order?''] empty_stores
     = (Raises ''database is locked'', empty_stores)
   \<and> total_queries (fst (snd (run (raising_agent ''database is locked'') 0 1500000
                               ''Where is my order?'' init_metrics empty_stores))) = 1
   \<and> average_response_time (fst (snd (run (raising_agent ''database is locked'') 0 1500000
                               ''Where is my order?'' init_metrics empty_stores))) = []
   \<and> interrupted_agent [''input'' \<mapsto> PyStr ''Where is my order?''] empty_stores
       = (RaisesBaseException ''KeyboardInterrupt'', empty_stores)
   \<and> total_queries (fst (snd (run interrupted_agent 0 1500000
                               ''Where is my order?'' init_metrics empty_stores))) = 1
   \<and> fst (run (replying_agent ''Your order has shipped.'') 0 1500000 ''Where is my order?''
            init_metrics empty_stores)
       = Inr [''status'' \<mapsto> PyStr ''success'', ''response'' \<mapsto> PyStr ''Your order has shipped.'',
              ''response_time'' \<mapsto> PyFloat (3 / 2)]"
proof -
  have t: "to_double (3 / 2) = 3 / 2"
    by (subst to_double_eval [where e = 0]) (simp_all add: pow2_def round_half_even_def)
  show ?thesis
    using run_fault_counts_query
            [where agent = "raising_agent ''database is locked''"
               and query = "''Where is my order?''" and st = empty_stores
               and msg = "''database is locked''" and st' = empty_stores
               and start_time = 0 and end_time = 1500000 and m = init_metrics]
          run_fault_counts_query
            [where agent = interrupted_agent
               and query = "''Where is my order?''" and st = empty_stores
               and name = "''KeyboardInterrupt''" and st' = empty_stores
               and start_time = 0 and end_time = 1500000 and m = init_metrics]
          run_fault_counts_query
            [where agent = "replying_agent ''Your order has shipped.''"
               and query = "''Where is my order?''" and st = empty_stores
               and start_time = 0 and end_time = 1500000 and m = init_metrics
               and reply = "[''status'' \<mapsto> PyStr ''success'',
                             ''response'' \<mapsto> PyStr ''Your order has shipped.'',
                             ''response_time'' \<mapsto> PyFloat (3 / 2)]"]
    by (simp add: raising_agent_def interrupted_agent_def replying_agent_def run_def Let_def
          init_metrics_def t split: prod.splits)
qed

text \<open>
  Claim C3. When the dispatcher returns a reply text, \<open>run\<close> increments the escalated
  counter if the lower-cased text contains \<open>ticket\<close>, and the resolved counter
  otherwise, leaving the other one alone. So after one such invocation on a fresh runner
  \<open>get_metrics\<close> reports a resolution rate of 100.0 and an escalation rate of 0.0 when
  the reply does not mention a ticket, and 0.0 and 100.0 when it does.
\<close>

theorem run_classifies_reply:
  assumes "agent [''input'' \<mapsto> PyStr query] st = (Returns result, st')"
      and "result ''output'' = Some (PyStr reply_text)"
  shows "(case run agent start_time end_time query m st of
            (reply, m', st'') \<Rightarrow>
              if str_contains ''ticket'' (lower reply_text)
              then escalations m' = escalations m + 1
                   \<and> successful_resolutions m' = successful_resolutions m
              else successful_resolutions m' = successful_resolutions m + 1
                   \<and> escalations m' = escalations m)
         \<and> (case run agent start_time end_time query init_metrics st of
              (reply, m', st'') \<Rightarrow>
                \<exists>report. fst (get_metrics fsum m') = Inr report
                  \<and> report ''resolution_rate''
                      = Some (PyFloat (if str_contains ''ticket'' (lower reply_text) then 0 else 100))
                  \<and> report ''escalation_rate''
                      = Some (PyFloat (if str_contains ''ticket'' (lower reply_text) then 100 else 0)))"
proof -
  have one: "percentage 1 1 = Inr (PyFloat 100)"
    by (simp add: percentage_in_range to_double_1 to_double_100)
  have none: "percentage 0 1 = Inr (PyFloat 0)"
    by (simp add: percentage_in_range to_double_0)
  show ?thesis
    using assms
    by (simp add: run_Returns_text [where agent = agent] init_metrics_def
          get_metrics_def avg_time_Inr one none)
qed

theorem run_classifies_reply_witness:
  "replying_agent ''I have opened a support Ticket for you.''
       [''input'' \<mapsto> PyStr ''I am furious!''] empty_stores
     = (Returns [''output'' \<mapsto> PyStr ''I have opened a support Ticket for you.''], empty_stores)
   \<and> str_contains ''ticket'' (lower ''I have opened a support Ticket for you.'')
   \<and> escalations (fst (snd (run (replying_agent ''I have opened a support Ticket for you.'')
                             0 1500000 ''I am furious!'' init_metrics empty_stores))) = 1
   \<and> \<not> str_contains ''ticket'' (lower ''Your order has shipped.'')
   \<and> successful_resolutions
         (fst (snd (run (replying_agent ''Your order has shipped.'')
                      0 1500000 ''Where is my order?'' init_metrics empty_stores))) = 1"
proof -
  have yes: "str_contains ''ticket'' (lower ''I have opened a support Ticket for you.'')"
    by code_simp
  have no: "\<not> str_contains ''ticket'' (lower ''Your order has shipped.'')"
    by code_simp
  have a: "replying_agent ''I have opened a support Ticket for you.''
       [''input'' \<mapsto> PyStr ''I am furious!''] empty_stores
     = (Returns [''output'' \<mapsto> PyStr ''I have opened a support Ticket for you.''], empty_stores)"
    by (simp add: replying_agent_def)
  have b: "replying_agent ''Your order has shipped.''
       [''input'' \<mapsto> PyStr ''Where is my order?''] empty_stores
     = (Returns [''output'' \<mapsto> PyStr ''Your order has shipped.''], empty_stores)"
    by (simp add: replying_agent_def)
  show ?thesis
    using run_classifies_reply
            [where agent = "replying_agent ''I have opened a support Ticket for you.''"
               and query = "''I am furious!''" and st = empty_stores and st' = empty_stores
               and result = "[''output'' \<mapsto> PyStr ''I have opened a support Ticket for you.'']"
               and reply_text = "''I have opened a support Ticket for you.''"
               and start_time = 0 and end_time = 1500000 and m = init_metrics
               and fsum = left_to_right_sum]
          run_classifies_reply
            [where agent = "replying_agent ''Your order has shipped.''"
               and query = "''Where is my order?''" and st = empty_stores and st' = empty_stores
               and result = "[''output'' \<mapsto> PyStr ''Your order has shipped.'']"
               and reply_text = "''Your order has shipped.''"
               and start_time = 0 and end_time = 1500000 and m = init_metrics
               and fsum = left_to_right_sum]
          yes no a b
    by (simp add: init_metrics_def split: prod.splits)
qed

end
